theory Spec2Isabelle
  imports Main "HOL-Library.Word"
begin

unbundle bit_operations_syntax

section \<open>The e-puck main loop: transmission and camera state machines\<close>

text \<open>
  The theory embeds the two state machines of \<^verbatim>\<open>main()\<close> in \<^verbatim>\<open>src/main.c\<close> that share the
  image buffers: the \<^verbatim>\<open>switch (tx_state)\<close> block and the \<^verbatim>\<open>switch (img_state)\<close> block of the
  build with \<^verbatim>\<open>DBG_INCLUDE_CAM == 1\<close> (the setting of \<^verbatim>\<open>configuration.h\<close>). The proximity
  scan and the motion state machine of the same loop touch none of the variables modelled here
  and are left out, as is the start-up wait for a non-zero selector.

  One pass of \<^verbatim>\<open>while (1)\<close> is one tick. What the loop reads from the hardware during a tick
  is the tick's environment; what it hands to the hardware is the tick's list of actions.
\<close>

subsection \<open>Constants\<close>

definition IMG_H :: nat where "IMG_H = 25"
definition IMG_W :: nat where "IMG_W = 64"
definition IMG_DATA_SIZE :: nat where "IMG_DATA_SIZE = IMG_H * IMG_W"

definition SEL_SENSING :: "16 word" where "SEL_SENSING = 2"

text \<open>
  Modelled from the spec: \<^verbatim>\<open>pucom.h\<close>, which declares the message types, the two message
  structs and \<^verbatim>\<open>PMT_ACK\<close>, is not among the sources. The header is
  \<open>{type: CONFIG or VISUAL, length}\<close>, the configuration payload is \<open>{columns, rows}\<close> and its
  size is 8 (scenario 3 of the spec). The value of \<^verbatim>\<open>PMT_ACK\<close> is given nowhere: it is the
  parameter \<open>pmt_ack\<close> of the transmission step.
\<close>

datatype puck_msg_type = PMT_CONFIG | PMT_VISUAL

record puck_msg_hdr =
  type :: puck_msg_type
  len :: nat

record puck_msg_config =
  cols :: nat
  rows :: nat

definition sizeof_msg_config :: nat where "sizeof_msg_config = 8"

subsection \<open>Data\<close>

text \<open>
  \<^verbatim>\<open>struct img_buf\<close>. The pixel array \<^verbatim>\<open>data\<close> is written by the camera driver and read by the
  UART driver only; the loop passes its address on and never touches the bytes, so a buffer
  is represented by its flag and named by its index in the actions.
\<close>

record img_buf =
  data_is_new :: "8 word"

datatype TRANSMISSION_STATES =
  TX_INIT | TX_CONFIG | TX_CONFIG_ACK | TX_VISUAL | TX_VISUAL_ACK | TX_VISUAL_SENT

datatype CAMERA_STATES = CAM_INACTIVE | CAM_IDLE | CAM_CAPTURING

text \<open>
  The local variables of \<^verbatim>\<open>main\<close> that the two state machines use. \<^verbatim>\<open>img_bufs\<close> is an array of
  exactly two buffers: a pair, slot 0 first. \<^verbatim>\<open>msg_config\<close> is not initialised by the
  source: \<open>None\<close> until \<^verbatim>\<open>TX_CONFIG\<close> writes it. \<^verbatim>\<open>msg_hdr\<close> is written immediately before each
  use and so is not part of the state.
\<close>

record state =
  tx_state :: TRANSMISSION_STATES
  img_state :: CAMERA_STATES
  act_tx_buf :: "8 word"
  act_img_buf :: "8 word"
  ack :: "8 word"
  img_bufs :: "img_buf \<times> img_buf"
  msg_config :: "puck_msg_config option"

text \<open>The state at the first pass of the loop (lines 111 to 122 of the source).\<close>

definition init_state :: state where
  "init_state =
     \<lparr>tx_state = TX_INIT, img_state = CAM_INACTIVE, act_tx_buf = 0, act_img_buf = 0, ack = 0,
      img_bufs = (\<lparr>data_is_new = 0\<rparr>, \<lparr>data_is_new = 0\<rparr>), msg_config = None\<rparr>"

text \<open>
  What one tick reads from the hardware: \<^verbatim>\<open>get_selector()\<close>, \<^verbatim>\<open>e_uart1_sending()\<close>, the next
  unread byte of the UART if there is one (\<^verbatim>\<open>e_ischar_uart1()\<close> tells whether there is,
  \<^verbatim>\<open>e_getchar_uart1\<close> takes it) and \<^verbatim>\<open>e_poxxxx_is_img_ready()\<close>. Each is one reading per
  pass: where the source polls \<^verbatim>\<open>e_uart1_sending()\<close> in both arms of the \<^verbatim>\<open>TX_VISUAL\<close> scan,
  both polls get the same answer.
\<close>

record env =
  sel :: "16 word"
  uart1_sending :: bool
  uart1_char :: "8 word option"
  img_ready :: bool

text \<open>What the loop hands to the hardware.\<close>

datatype action =
    Uart_Send_Hdr puck_msg_hdr
  | Uart_Send_Config "puck_msg_config option"
  | Uart_Send_Image "8 word"
  | Uart_Getchar "8 word"
  | Launch_Capture "8 word"

text \<open>
  An index outside the two-element array is undefined behaviour in C; in the model the step
  stops with a fault.
\<close>

datatype fault = OutOfBounds

definition sensing :: "env \<Rightarrow> bool" where
  "sensing e \<longleftrightarrow> sel e AND SEL_SENSING \<noteq> 0"

definition buf_at :: "img_buf \<times> img_buf \<Rightarrow> 8 word \<Rightarrow> fault + img_buf" where
  "buf_at bs i = (if i = 0 then Inr (fst bs) else if i = 1 then Inr (snd bs) else Inl OutOfBounds)"

definition buf_set_new ::
  "img_buf \<times> img_buf \<Rightarrow> 8 word \<Rightarrow> 8 word \<Rightarrow> fault + img_buf \<times> img_buf" where
  "buf_set_new bs i v =
     (if i = 0 then Inr ((fst bs)\<lparr>data_is_new := v\<rparr>, snd bs)
      else if i = 1 then Inr (fst bs, (snd bs)\<lparr>data_is_new := v\<rparr>)
      else Inl OutOfBounds)"

subsection \<open>The transmission state machine\<close>

text \<open>\<^verbatim>\<open>switch (tx_state)\<close>, lines 235 to 331.\<close>

definition tx_step :: "8 word \<Rightarrow> env \<Rightarrow> state \<Rightarrow> fault + state \<times> action list" where
  "tx_step pmt_ack e s =
     (case tx_state s of
        TX_INIT \<Rightarrow>
          if sensing e then Inr (s\<lparr>tx_state := TX_CONFIG\<rparr>, [])
          else Inr (s, [])
      | TX_CONFIG \<Rightarrow>
          if \<not> sensing e then Inr (s\<lparr>tx_state := TX_INIT\<rparr>, [])
          else if sensing e \<and> \<not> uart1_sending e then
            Inr (s\<lparr>msg_config := Some \<lparr>cols = IMG_W, rows = IMG_H\<rparr>, tx_state := TX_CONFIG_ACK\<rparr>,
                 [Uart_Send_Hdr \<lparr>type = PMT_CONFIG, len = sizeof_msg_config\<rparr>])
          else Inr (s, [])
      | TX_CONFIG_ACK \<Rightarrow>
          if \<not> sensing e then Inr (s\<lparr>tx_state := TX_INIT\<rparr>, [])
          else if uart1_char e \<noteq> None \<and> ack s \<noteq> pmt_ack then
            Inr (s\<lparr>ack := the (uart1_char e)\<rparr>, [Uart_Getchar (the (uart1_char e))])
          else if \<not> uart1_sending e \<and> ack s = pmt_ack then
            Inr (s\<lparr>tx_state := TX_VISUAL\<rparr>, [Uart_Send_Config (msg_config s)])
          else Inr (s, [])
      | TX_VISUAL \<Rightarrow>
          if \<not> sensing e then Inr (s\<lparr>tx_state := TX_INIT\<rparr>, [])
          else if data_is_new (fst (img_bufs s)) = 1 \<and> \<not> uart1_sending e then
            Inr (s\<lparr>act_tx_buf := 0, tx_state := TX_VISUAL_ACK\<rparr>,
                 [Uart_Send_Hdr \<lparr>type = PMT_VISUAL, len = IMG_DATA_SIZE\<rparr>])
          else if data_is_new (snd (img_bufs s)) = 1 \<and> \<not> uart1_sending e then
            Inr (s\<lparr>act_tx_buf := 1, tx_state := TX_VISUAL_ACK\<rparr>,
                 [Uart_Send_Hdr \<lparr>type = PMT_VISUAL, len = IMG_DATA_SIZE\<rparr>])
          else Inr (s, [])
      | TX_VISUAL_ACK \<Rightarrow>
          if \<not> sensing e then Inr (s\<lparr>tx_state := TX_INIT\<rparr>, [])
          else if uart1_char e \<noteq> None \<and> ack s \<noteq> pmt_ack then
            Inr (s\<lparr>ack := the (uart1_char e)\<rparr>, [Uart_Getchar (the (uart1_char e))])
          else if \<not> uart1_sending e \<and> ack s = pmt_ack then
            (case buf_at (img_bufs s) (act_tx_buf s) of
               Inl f \<Rightarrow> Inl f
             | Inr b \<Rightarrow>
                 Inr (s\<lparr>ack := 0, tx_state := TX_VISUAL_SENT\<rparr>,
                      [Uart_Send_Image (act_tx_buf s)]))
          else Inr (s, [])
      | TX_VISUAL_SENT \<Rightarrow>
          if \<not> uart1_sending e then
            (case buf_set_new (img_bufs s) (act_tx_buf s) 0 of
               Inl f \<Rightarrow> Inl f
             | Inr bs \<Rightarrow> Inr (s\<lparr>img_bufs := bs, tx_state := TX_VISUAL\<rparr>, []))
          else Inr (s, []))"

subsection \<open>The camera state machine\<close>

text \<open>\<^verbatim>\<open>switch (img_state)\<close>, lines 335 to 370.\<close>

definition cam_step :: "env \<Rightarrow> state \<Rightarrow> fault + state \<times> action list" where
  "cam_step e s =
     (case img_state s of
        CAM_INACTIVE \<Rightarrow>
          if sensing e then Inr (s\<lparr>img_state := CAM_IDLE\<rparr>, [])
          else Inr (s, [])
      | CAM_IDLE \<Rightarrow>
          if \<not> sensing e then Inr (s\<lparr>img_state := CAM_INACTIVE\<rparr>, [])
          else if data_is_new (fst (img_bufs s)) = 0 then
            Inr (s\<lparr>act_img_buf := 0, img_state := CAM_CAPTURING\<rparr>, [Launch_Capture 0])
          else if data_is_new (snd (img_bufs s)) = 0 then
            Inr (s\<lparr>act_img_buf := 1, img_state := CAM_CAPTURING\<rparr>, [Launch_Capture 1])
          else Inr (s, [])
      | CAM_CAPTURING \<Rightarrow>
          if \<not> sensing e then Inr (s\<lparr>img_state := CAM_INACTIVE\<rparr>, [])
          else if img_ready e then
            (case buf_set_new (img_bufs s) (act_img_buf s) 1 of
               Inl f \<Rightarrow> Inl f
             | Inr bs \<Rightarrow> Inr (s\<lparr>img_bufs := bs, img_state := CAM_IDLE\<rparr>, []))
          else Inr (s, []))"

subsection \<open>The loop\<close>

text \<open>One pass of \<^verbatim>\<open>while (1)\<close>: the transmission machine steps first, then the camera machine.\<close>

definition tick :: "8 word \<Rightarrow> env \<Rightarrow> state \<Rightarrow> fault + state \<times> action list" where
  "tick pmt_ack e s =
     (case tx_step pmt_ack e s of
        Inl f \<Rightarrow> Inl f
      | Inr (s1, a1) \<Rightarrow>
          (case cam_step e s1 of
             Inl f \<Rightarrow> Inl f
           | Inr (s2, a2) \<Rightarrow> Inr (s2, a1 @ a2)))"

text \<open>Finitely many passes, one environment per pass.\<close>

fun run :: "8 word \<Rightarrow> env list \<Rightarrow> state \<Rightarrow> fault + state \<times> action list" where
  "run pmt_ack [] s = Inr (s, [])"
| "run pmt_ack (e # es) s =
     (case tick pmt_ack e s of
        Inl f \<Rightarrow> Inl f
      | Inr (s1, a1) \<Rightarrow>
          (case run pmt_ack es s1 of
             Inl f \<Rightarrow> Inl f
           | Inr (s2, a2) \<Rightarrow> Inr (s2, a1 @ a2)))"

text \<open>The states the loop can be in at the start of a pass.\<close>

inductive reachable :: "8 word \<Rightarrow> state \<Rightarrow> bool" for pmt_ack :: "8 word" where
  reach_init: "reachable pmt_ack init_state"
| reach_tick: "reachable pmt_ack s \<Longrightarrow> tick pmt_ack e s = Inr (s', acts) \<Longrightarrow> reachable pmt_ack s'"

subsection \<open>Vocabulary of the properties\<close>

text \<open>The ready flag (\<^verbatim>\<open>data_is_new\<close>) of slot \<open>i\<close>, for \<open>i\<close> 0 or 1.\<close>

definition flag :: "state \<Rightarrow> 8 word \<Rightarrow> 8 word" where
  "flag s i = data_is_new (if i = 0 then fst (img_bufs s) else snd (img_bufs s))"

definition idx_ok :: "state \<Rightarrow> bool" where
  "idx_ok s \<longleftrightarrow>
     (act_tx_buf s = 0 \<or> act_tx_buf s = 1) \<and> (act_img_buf s = 0 \<or> act_img_buf s = 1)"

text \<open>
  The hand-off invariant: both indices name a slot, the slot being captured into is not ready
  and the slot whose header or payload is under way is ready.
\<close>

definition handoff_inv :: "state \<Rightarrow> bool" where
  "handoff_inv s \<longleftrightarrow>
     idx_ok s \<and>
     (img_state s = CAM_CAPTURING \<longrightarrow> flag s (act_img_buf s) = 0) \<and>
     (tx_state s = TX_VISUAL_ACK \<or> tx_state s = TX_VISUAL_SENT \<longrightarrow> flag s (act_tx_buf s) = 1)"



fun is_getchar :: "action \<Rightarrow> bool" where
  "is_getchar (Uart_Getchar c) = True"
| "is_getchar _ = False"

fun is_launch :: "action \<Rightarrow> bool" where
  "is_launch (Launch_Capture i) = True"
| "is_launch _ = False"

subsection \<open>Environments of the scenarios\<close>

text \<open>
  Sensing selected (selector position 2) or not (position 0); the channel idle, nothing to
  read, no image finished. The scenarios vary these with record updates.
\<close>

definition env_on :: env where
  "env_on = \<lparr>sel = 2, uart1_sending = False, uart1_char = None, img_ready = False\<rparr>"

definition env_off :: env where
  "env_off = \<lparr>sel = 0, uart1_sending = False, uart1_char = None, img_ready = False\<rparr>"

text \<open>
  Five passes from power-up with a peer that acknowledges the configuration header with the
  byte \<open>a\<close>: the configuration handshake, a capture into slot 0 that completes, and the
  \<^verbatim>\<open>PMT_VISUAL\<close> header for slot 0.
\<close>

definition handshake_envs :: "8 word \<Rightarrow> env list" where
  "handshake_envs a =
     [env_on, env_on, env_on\<lparr>uart1_char := Some a, img_ready := True\<rparr>, env_on, env_on]"

text \<open>
  The state those five passes end in when the peer's byte is the sentinel \<open>a\<close>: the header for
  slot 0 is out, slot 1 is being captured into, and the acknowledgement register still holds
  the byte that closed the configuration handshake.
\<close>

definition visual_ack_state :: "8 word \<Rightarrow> state" where
  "visual_ack_state a =
     \<lparr>tx_state = TX_VISUAL_ACK, img_state = CAM_CAPTURING, act_tx_buf = 0, act_img_buf = 1,
      ack = a, img_bufs = (\<lparr>data_is_new = 1\<rparr>, \<lparr>data_is_new = 0\<rparr>),
      msg_config = Some \<lparr>cols = 64, rows = 25\<rparr>\<rparr>"

text \<open>The next pass, with the channel idle, hands the payload of slot 0 to the UART.\<close>

definition visual_sent_state :: "8 word \<Rightarrow> state" where
  "visual_sent_state a = (visual_ack_state a)\<lparr>ack := 0, tx_state := TX_VISUAL_SENT\<rparr>"

text \<open>
  One pass later, the send finished and the capture into slot 1 complete: slot 0 is free
  again, slot 1 is ready, both machines are at their scan points.
\<close>

definition scan_state :: "8 word \<Rightarrow> state" where
  "scan_state a =
     (visual_ack_state a)\<lparr>ack := 0, tx_state := TX_VISUAL, img_state := CAM_IDLE,
        img_bufs := (\<lparr>data_is_new = 0\<rparr>, \<lparr>data_is_new = 1\<rparr>)\<rparr>"

text \<open>Sensing selected, the channel idle and the byte \<open>a\<close> waiting to be read.\<close>

definition env_ack :: "8 word \<Rightarrow> env" where
  "env_ack a = env_on\<lparr>uart1_char := Some a\<rparr>"

text \<open>
  Sensing is switched off for one pass and on again for six, with a peer whose acknowledgement
  byte is waiting in every pass.
\<close>

definition stale_resend_envs :: "8 word \<Rightarrow> env list" where
  "stale_resend_envs a =
     [env_off, env_ack a, env_ack a, env_ack a, env_ack a, env_ack a, env_ack a]"

text \<open>
  The state after three passes from power-up in which the peer's first byte is 5, not the
  sentinel 6: the transmission machine waits for the configuration acknowledgement and the
  register holds 5.
\<close>

definition stray_state :: state where
  "stray_state =
     \<lparr>tx_state = TX_CONFIG_ACK, img_state = CAM_CAPTURING, act_tx_buf = 0, act_img_buf = 0,
      ack = 5, img_bufs = (\<lparr>data_is_new = 0\<rparr>, \<lparr>data_is_new = 0\<rparr>),
      msg_config = Some \<lparr>cols = 64, rows = 25\<rparr>\<rparr>"

text \<open>
  Six passes from power-up in which both captures complete before the payload of slot 0 has
  left the channel, and the state they end in: both slots ready, the camera machine idle, the
  transmission machine waiting for the send of slot 0 to complete.
\<close>

definition backpressure_envs :: "env list" where
  "backpressure_envs =
     [env_on, env_on, env_on\<lparr>uart1_char := Some 6, img_ready := True\<rparr>, env_on,
      env_on\<lparr>img_ready := True\<rparr>, env_on]"

definition both_ready_state :: state where
  "both_ready_state =
     \<lparr>tx_state = TX_VISUAL_SENT, img_state = CAM_IDLE, act_tx_buf = 0, act_img_buf = 1,
      ack = 0, img_bufs = (\<lparr>data_is_new = 1\<rparr>, \<lparr>data_is_new = 1\<rparr>),
      msg_config = Some \<lparr>cols = 64, rows = 25\<rparr>\<rparr>"

section \<open>Basic facts\<close>

lemmas step_defs = tx_step_def cam_step_def buf_at_def buf_set_new_def

lemmas eval_defs = tick_def step_defs sensing_def SEL_SENSING_def init_state_def env_on_def
  env_off_def handshake_envs_def IMG_W_def IMG_H_def IMG_DATA_SIZE_def sizeof_msg_config_def

lemmas scenario_defs = visual_ack_state_def visual_sent_state_def scan_state_def env_ack_def
  stale_resend_envs_def stray_state_def backpressure_envs_def both_ready_state_def

lemma tick_Inr_iff:
  "tick p e s = Inr (s2, a) \<longleftrightarrow>
     (\<exists>s1 a1 a2. tx_step p e s = Inr (s1, a1) \<and> cam_step e s1 = Inr (s2, a2) \<and> a = a1 @ a2)"
  by (simp add: tick_def split: sum.splits prod.splits) blast

lemma run_Cons_Inr:
  assumes "run p (e # es) s = Inr (s', a)"
  obtains s1 a1 a2 where "tick p e s = Inr (s1, a1)" and "run p es s1 = Inr (s', a2)"
    and "a = a1 @ a2"
  using assms by (auto split: sum.splits prod.splits)


subsection \<open>The hand-off invariant holds in every reachable state\<close>

lemma handoff_inv_init: "handoff_inv init_state"
  by (simp add: handoff_inv_def idx_ok_def init_state_def)

lemma tx_step_inv:
  assumes "handoff_inv s" and "tx_step p e s = Inr (s', a)"
  shows "handoff_inv s'"
proof (cases "tx_state s")
  case TX_INIT
  with assms show ?thesis
    by (auto simp: step_defs handoff_inv_def idx_ok_def flag_def split: if_splits)
next
  case TX_CONFIG
  with assms show ?thesis
    by (auto simp: step_defs handoff_inv_def idx_ok_def flag_def split: if_splits)
next
  case TX_CONFIG_ACK
  with assms show ?thesis
    by (auto simp: step_defs handoff_inv_def idx_ok_def flag_def split: if_splits)
next
  case TX_VISUAL
  with assms show ?thesis
    by (auto simp: step_defs handoff_inv_def idx_ok_def flag_def split: if_splits)
next
  case TX_VISUAL_ACK
  with assms show ?thesis
    by (auto simp: step_defs handoff_inv_def idx_ok_def flag_def split: if_splits)
next
  case TX_VISUAL_SENT
  with assms show ?thesis
    by (auto simp: step_defs handoff_inv_def idx_ok_def flag_def split: if_splits)
qed

lemma cam_step_inv:
  assumes "handoff_inv s" and "cam_step e s = Inr (s', a)"
  shows "handoff_inv s'"
proof (cases "img_state s")
  case CAM_INACTIVE
  with assms show ?thesis
    by (auto simp: step_defs handoff_inv_def idx_ok_def flag_def split: if_splits)
next
  case CAM_IDLE
  with assms show ?thesis
    by (auto simp: step_defs handoff_inv_def idx_ok_def flag_def split: if_splits)
next
  case CAM_CAPTURING
  with assms show ?thesis
    by (auto simp: step_defs handoff_inv_def idx_ok_def flag_def split: if_splits)
qed

lemma tick_inv: "handoff_inv s \<Longrightarrow> tick p e s = Inr (s', a) \<Longrightarrow> handoff_inv s'"
  unfolding tick_Inr_iff using tx_step_inv cam_step_inv by blast

lemma reachable_inv: "reachable p s \<Longrightarrow> handoff_inv s"
proof (induction rule: reachable.induct)
  case reach_init
  show ?case by (rule handoff_inv_init)
next
  case (reach_tick s e s' acts)
  then show ?case using tick_inv by blast
qed

subsection \<open>No step faults while both indices name a slot\<close>

lemma tx_step_total: "idx_ok s \<Longrightarrow> \<exists>s' a. tx_step p e s = Inr (s', a)"
  by (cases "tx_state s") (auto simp: step_defs idx_ok_def)

lemma cam_step_total: "idx_ok s \<Longrightarrow> \<exists>s' a. cam_step e s = Inr (s', a)"
  by (cases "img_state s") (auto simp: step_defs idx_ok_def)

lemma tx_step_idx_ok: "idx_ok s \<Longrightarrow> tx_step p e s = Inr (s', a) \<Longrightarrow> idx_ok s'"
  by (cases "tx_state s") (auto simp: step_defs idx_ok_def split: if_splits)

lemma cam_step_idx_ok: "idx_ok s \<Longrightarrow> cam_step e s = Inr (s', a) \<Longrightarrow> idx_ok s'"
  by (cases "img_state s") (auto simp: step_defs idx_ok_def split: if_splits)

lemma tick_idx_ok: "idx_ok s \<Longrightarrow> tick p e s = Inr (s', a) \<Longrightarrow> idx_ok s'"
  unfolding tick_Inr_iff using tx_step_idx_ok cam_step_idx_ok by blast

lemma tick_total:
  assumes ok: "idx_ok s"
  shows "\<exists>s1 a1 s2 a2. tx_step p e s = Inr (s1, a1) \<and> idx_ok s1 \<and>
           cam_step e s1 = Inr (s2, a2) \<and> idx_ok s2 \<and> tick p e s = Inr (s2, a1 @ a2)"
proof -
  from ok obtain s1 a1 where tx: "tx_step p e s = Inr (s1, a1)"
    using tx_step_total by blast
  with ok have ok1: "idx_ok s1" by (rule tx_step_idx_ok)
  then obtain s2 a2 where cam: "cam_step e s1 = Inr (s2, a2)"
    using cam_step_total by blast
  with ok1 have ok2: "idx_ok s2" by (rule cam_step_idx_ok)
  from tx cam have "tick p e s = Inr (s2, a1 @ a2)" by (simp add: tick_def)
  with tx cam ok1 ok2 show ?thesis by blast
qed

lemma run_total: "idx_ok s \<Longrightarrow> \<exists>s' a. run p es s = Inr (s', a)"
proof (induction es arbitrary: s)
  case Nil
  show ?case by simp
next
  case (Cons e es)
  from tick_total [OF Cons.prems] obtain s1 a1 where t: "tick p e s = Inr (s1, a1)"
    by blast
  with Cons.prems have "idx_ok s1" by (rule tick_idx_ok)
  then obtain s2 a2 where "run p es s1 = Inr (s2, a2)"
    using Cons.IH by blast
  with t show ?case by simp
qed

lemma run_reachable: "reachable p s \<Longrightarrow> run p es s = Inr (s', a) \<Longrightarrow> reachable p s'"
proof (induction es arbitrary: s a)
  case Nil
  then show ?case by simp
next
  case (Cons e es)
  from Cons.prems(2) obtain s1 a1 a2 where
    t: "tick p e s = Inr (s1, a1)" and r: "run p es s1 = Inr (s', a2)"
    by (rule run_Cons_Inr)
  from Cons.prems(1) t have "reachable p s1" by (rule reach_tick)
  then show ?case using r by (rule Cons.IH)
qed

subsection \<open>What each step can emit\<close>

lemma tx_step_actions:
  assumes "handoff_inv s" and "tx_step p e s = Inr (s1, a1)"
  shows "(Uart_Send_Hdr \<lparr>type = PMT_VISUAL, len = l\<rparr> \<in> set a1 \<longrightarrow>
            tx_state s = TX_VISUAL \<and> tx_state s1 = TX_VISUAL_ACK \<and> flag s (act_tx_buf s1) = 1) \<and>
         (Uart_Send_Image i \<in> set a1 \<longrightarrow>
            tx_state s = TX_VISUAL_ACK \<and> tx_state s1 = TX_VISUAL_SENT \<and>
            i = act_tx_buf s \<and> flag s i = 1) \<and>
         (flag s i = 1 \<and> flag s1 i \<noteq> 1 \<longrightarrow>
            tx_state s = TX_VISUAL_SENT \<and> \<not> uart1_sending e \<and>
            (if i = 0 then act_tx_buf s = 0 else act_tx_buf s = 1)) \<and>
         (tx_state s1 = TX_VISUAL_SENT \<longrightarrow>
            tx_state s = TX_VISUAL_SENT \<or> a1 = [Uart_Send_Image (act_tx_buf s1)]) \<and>
         \<not> list_ex is_launch a1"
  using assms
  apply (cases "tx_state s")
       apply (auto simp: step_defs handoff_inv_def idx_ok_def flag_def split: if_splits)[1]
      apply (auto simp: step_defs handoff_inv_def idx_ok_def flag_def split: if_splits)[1]
     apply (auto simp: step_defs handoff_inv_def idx_ok_def flag_def split: if_splits)[1]
    apply (auto simp: step_defs handoff_inv_def idx_ok_def flag_def split: if_splits)[1]
   apply (auto simp: step_defs handoff_inv_def idx_ok_def flag_def split: if_splits)[1]
  apply (auto simp: step_defs handoff_inv_def idx_ok_def flag_def split: if_splits)[1]
  done

lemma cam_step_actions:
  assumes "handoff_inv s1" and "cam_step e s1 = Inr (s2, a2)"
  shows "(Launch_Capture i \<in> set a2 \<longrightarrow>
            (i = 0 \<or> i = 1) \<and> flag s1 i = 0 \<and> img_state s1 = CAM_IDLE \<and>
            img_state s2 = CAM_CAPTURING \<and> act_img_buf s2 = i) \<and>
         (flag s1 i = 1 \<longrightarrow> flag s2 i = 1) \<and>
         list_all is_launch a2"
  using assms
  apply (cases "img_state s1")
    apply (auto simp: step_defs handoff_inv_def idx_ok_def flag_def split: if_splits)[1]
   apply (auto simp: step_defs handoff_inv_def idx_ok_def flag_def split: if_splits)[1]
  apply (auto simp: step_defs handoff_inv_def idx_ok_def flag_def split: if_splits)[1]
  done

lemma cam_step_only_launch:
  assumes "cam_step e s1 = Inr (s2, a2)"
  shows "list_all is_launch a2 \<and> tx_state s2 = tx_state s1 \<and> ack s2 = ack s1 \<and>
         act_tx_buf s2 = act_tx_buf s1"
  using assms
  by (cases "img_state s1") (auto simp: step_defs split: if_splits sum.splits)

lemma launch_not_getchar:
  "list_all is_launch a \<Longrightarrow> filter is_getchar a = [] \<and> \<not> list_ex is_getchar a"
  by (induction a) (auto elim: is_launch.elims)


lemma tx_step_getchar:
  assumes "tx_step p e s = Inr (s1, a1)"
  shows "length (filter is_getchar a1) \<le> 1 \<and>
         (list_ex is_getchar a1 \<longleftrightarrow>
            (tx_state s = TX_CONFIG_ACK \<or> tx_state s = TX_VISUAL_ACK) \<and>
            sensing e \<and> uart1_char e \<noteq> None \<and> ack s \<noteq> p) \<and>
         (list_ex is_getchar a1 \<longrightarrow>
            a1 = [Uart_Getchar (the (uart1_char e))] \<and> s1 = s\<lparr>ack := the (uart1_char e)\<rparr>)"
  using assms
  by (cases "tx_state s") (auto simp: step_defs split: if_splits sum.splits)





subsection \<open>Switching sensing off and on again\<close>


lemma disable_resets_tx:
  assumes "tx_state s \<noteq> TX_VISUAL_SENT" and "\<not> sensing e"
  shows "\<exists>s'. tx_step p e s = Inr (s', []) \<and> tx_state s' = TX_INIT"
  using assms by (cases "tx_state s") (simp_all add: step_defs)


subsection \<open>The scenario runs\<close>

lemma handshake_run:
  "run 6 (handshake_envs 6) init_state =
     Inr (visual_ack_state 6,
          [Uart_Send_Hdr \<lparr>type = PMT_CONFIG, len = 8\<rparr>, Launch_Capture 0, Uart_Getchar 6,
           Uart_Send_Config (Some \<lparr>cols = 64, rows = 25\<rparr>), Launch_Capture 1,
           Uart_Send_Hdr \<lparr>type = PMT_VISUAL, len = 1600\<rparr>])"
  by (simp add: eval_defs scenario_defs)

lemma drain_run:
  "run 6 [env_on] (visual_ack_state 6) = Inr (visual_sent_state 6, [Uart_Send_Image 0])"
  "run 6 [env_on\<lparr>img_ready := True\<rparr>] (visual_sent_state 6) = Inr (scan_state 6, [])"
  by (simp_all add: eval_defs scenario_defs)

lemma reachable_visual_ack_state: "reachable 6 (visual_ack_state 6)"
  using run_reachable [OF reach_init handshake_run] .

lemma reachable_visual_sent_state: "reachable 6 (visual_sent_state 6)"
  using run_reachable [OF reachable_visual_ack_state drain_run(1)] .

lemma reachable_scan_state: "reachable 6 (scan_state 6)"
  using run_reachable [OF reachable_visual_sent_state drain_run(2)] .

lemma step_visual_ack:
  "tx_step 6 env_on (visual_ack_state 6) = Inr (visual_sent_state 6, [Uart_Send_Image 0])"
  "cam_step env_on (visual_sent_state 6) = Inr (visual_sent_state 6, [])"
  by (simp_all add: eval_defs scenario_defs)

lemma step_visual_sent:
  "tx_step 6 (env_on\<lparr>img_ready := True\<rparr>) (visual_sent_state 6) =
     Inr ((visual_sent_state 6)\<lparr>img_bufs := (\<lparr>data_is_new = 0\<rparr>, \<lparr>data_is_new = 0\<rparr>),
            tx_state := TX_VISUAL\<rparr>, [])"
  "cam_step (env_on\<lparr>img_ready := True\<rparr>)
     ((visual_sent_state 6)\<lparr>img_bufs := (\<lparr>data_is_new = 0\<rparr>, \<lparr>data_is_new = 0\<rparr>),
        tx_state := TX_VISUAL\<rparr>) = Inr (scan_state 6, [])"
  by (simp_all add: eval_defs scenario_defs)

lemma step_scan:
  "tx_step 6 env_on (scan_state 6) =
     Inr ((scan_state 6)\<lparr>act_tx_buf := 1, tx_state := TX_VISUAL_ACK\<rparr>,
          [Uart_Send_Hdr \<lparr>type = PMT_VISUAL, len = 1600\<rparr>])"
  "cam_step env_on ((scan_state 6)\<lparr>act_tx_buf := 1, tx_state := TX_VISUAL_ACK\<rparr>) =
     Inr ((scan_state 6)\<lparr>act_tx_buf := 1, tx_state := TX_VISUAL_ACK, act_img_buf := 0,
            img_state := CAM_CAPTURING\<rparr>, [Launch_Capture 0])"
  by (simp_all add: eval_defs scenario_defs)

section \<open>The properties\<close>

text \<open>
  The scenario runs take 6 for \<^verbatim>\<open>PMT_ACK\<close>; the general theorems hold for every value \<open>p\<close>
  of it.
\<close>

subsection \<open>C1: buffer hand-off discipline\<close>

text \<open>
  C1. Buffer hand-off discipline. In every reachable state \<open>s\<close>, for a pass that takes the
  transmission machine to \<open>s1\<close> emitting \<open>a1\<close> and then the camera machine to \<open>s2\<close> emitting
  \<open>a2\<close>, and for each slot \<open>i\<close>:
  \<^item> a capture is started only by the camera machine and only into a slot whose flag is 0
    when it is started;
  \<^item> a \<^verbatim>\<open>PMT_VISUAL\<close> header is emitted only for a slot whose flag is 1, and a payload only
    for the slot \<^verbatim>\<open>act_tx_buf\<close>, whose flag is 1;
  \<^item> a flag that is 1 before the pass is not 1 after it only when the transmission machine
    was in \<^verbatim>\<open>TX_VISUAL_SENT\<close> for that slot and the UART reported the send complete, and
    \<^verbatim>\<open>TX_VISUAL_SENT\<close> is entered only by handing that slot's payload to the UART;
  \<^item> hence, whenever the camera machine is capturing, before, within and after the pass, the
    flag of the slot it captures into is 0: a ready slot is never being captured into.
\<close>

theorem buffer_handoff_discipline:
  assumes "reachable p s" and "tx_step p e s = Inr (s1, a1)" and "cam_step e s1 = Inr (s2, a2)"
  shows "(Launch_Capture i \<in> set (a1 @ a2) \<longrightarrow>
            (i = 0 \<or> i = 1) \<and> flag s1 i = 0 \<and> Launch_Capture i \<in> set a2) \<and>
         (Uart_Send_Hdr \<lparr>type = PMT_VISUAL, len = l\<rparr> \<in> set (a1 @ a2) \<longrightarrow>
            tx_state s1 = TX_VISUAL_ACK \<and> flag s (act_tx_buf s1) = 1) \<and>
         (Uart_Send_Image i \<in> set (a1 @ a2) \<longrightarrow> i = act_tx_buf s \<and> flag s i = 1) \<and>
         ((i = 0 \<or> i = 1) \<and> flag s i = 1 \<and> flag s2 i \<noteq> 1 \<longrightarrow>
            tx_state s = TX_VISUAL_SENT \<and> \<not> uart1_sending e \<and> act_tx_buf s = i) \<and>
         (tx_state s1 = TX_VISUAL_SENT \<and> tx_state s \<noteq> TX_VISUAL_SENT \<longrightarrow>
            a1 = [Uart_Send_Image (act_tx_buf s1)]) \<and>
         (img_state s = CAM_CAPTURING \<longrightarrow> flag s (act_img_buf s) = 0) \<and>
         (img_state s1 = CAM_CAPTURING \<longrightarrow> flag s1 (act_img_buf s1) = 0) \<and>
         (img_state s2 = CAM_CAPTURING \<longrightarrow> flag s2 (act_img_buf s2) = 0)"
proof -
  from assms(1) have inv: "handoff_inv s" by (rule reachable_inv)
  from inv assms(2) have inv1: "handoff_inv s1" by (rule tx_step_inv)
  from inv1 assms(3) have inv2: "handoff_inv s2" by (rule cam_step_inv)
  note tx = tx_step_actions [OF inv assms(2), of l i]
  note cam = cam_step_actions [OF inv1 assms(3), of i]
  have no_launch: "Launch_Capture i \<notin> set a1"
    using tx by (auto simp: list_ex_iff)
  have only_launch: "Uart_Send_Hdr \<lparr>type = PMT_VISUAL, len = l\<rparr> \<notin> set a2"
      "Uart_Send_Image i \<notin> set a2"
    using cam by (auto simp: list_all_iff)
  have c1: "Launch_Capture i \<in> set (a1 @ a2) \<longrightarrow>
            (i = 0 \<or> i = 1) \<and> flag s1 i = 0 \<and> Launch_Capture i \<in> set a2"
    using no_launch cam by simp
  have c2: "Uart_Send_Hdr \<lparr>type = PMT_VISUAL, len = l\<rparr> \<in> set (a1 @ a2) \<longrightarrow>
            tx_state s1 = TX_VISUAL_ACK \<and> flag s (act_tx_buf s1) = 1"
    using only_launch tx by simp
  have c3: "Uart_Send_Image i \<in> set (a1 @ a2) \<longrightarrow> i = act_tx_buf s \<and> flag s i = 1"
    using only_launch tx by simp
  have c4: "(i = 0 \<or> i = 1) \<and> flag s i = 1 \<and> flag s2 i \<noteq> 1 \<longrightarrow>
            tx_state s = TX_VISUAL_SENT \<and> \<not> uart1_sending e \<and> act_tx_buf s = i"
    using tx cam by (auto split: if_splits)
  have c5: "tx_state s1 = TX_VISUAL_SENT \<and> tx_state s \<noteq> TX_VISUAL_SENT \<longrightarrow>
            a1 = [Uart_Send_Image (act_tx_buf s1)]"
    using tx by blast
  have c6: "img_state s = CAM_CAPTURING \<longrightarrow> flag s (act_img_buf s) = 0"
       "img_state s1 = CAM_CAPTURING \<longrightarrow> flag s1 (act_img_buf s1) = 0"
       "img_state s2 = CAM_CAPTURING \<longrightarrow> flag s2 (act_img_buf s2) = 0"
    using inv inv1 inv2 by (simp_all add: handoff_inv_def)
  from c1 c2 c3 c4 c5 c6 show ?thesis by blast
qed

text \<open>
  Three reachable states in a row: the payload of ready slot 0 goes out; the completed send
  clears the flag of slot 0; then the header for ready slot 1 goes out and a capture into the
  freed slot 0 starts.
\<close>

theorem buffer_handoff_discipline_witness:
  "reachable 6 (visual_ack_state 6) \<and>
   tx_step 6 env_on (visual_ack_state 6) = Inr (visual_sent_state 6, [Uart_Send_Image 0]) \<and>
   cam_step env_on (visual_sent_state 6) = Inr (visual_sent_state 6, []) \<and>
   act_tx_buf (visual_ack_state 6) = 0 \<and> flag (visual_ack_state 6) 0 = 1 \<and>
   reachable 6 (visual_sent_state 6) \<and>
   flag (visual_sent_state 6) 0 = 1 \<and> flag (scan_state 6) 0 \<noteq> 1 \<and>
   tx_state (visual_sent_state 6) = TX_VISUAL_SENT \<and>
   \<not> uart1_sending (env_on\<lparr>img_ready := True\<rparr>) \<and>
   reachable 6 (scan_state 6) \<and>
   cam_step env_on ((scan_state 6)\<lparr>act_tx_buf := 1, tx_state := TX_VISUAL_ACK\<rparr>) =
     Inr ((scan_state 6)\<lparr>act_tx_buf := 1, tx_state := TX_VISUAL_ACK, act_img_buf := 0,
            img_state := CAM_CAPTURING\<rparr>, [Launch_Capture 0]) \<and>
   flag ((scan_state 6)\<lparr>act_tx_buf := 1, tx_state := TX_VISUAL_ACK\<rparr>) 0 = 0 \<and>
   flag (scan_state 6) 1 = 1"
  using buffer_handoff_discipline [OF reachable_visual_ack_state step_visual_ack, of 0 1600]
    buffer_handoff_discipline [OF reachable_visual_sent_state step_visual_sent, of 0 1600]
    buffer_handoff_discipline [OF reachable_scan_state step_scan, of 0 1600]
    reachable_visual_ack_state reachable_visual_sent_state reachable_scan_state
    step_visual_ack step_scan
  by (simp add: scenario_defs env_on_def flag_def)

subsection \<open>C2: switching sensing off in \<^verbatim>\<open>TX_VISUAL_SENT\<close>\<close>

text \<open>
  C2 says that a pass with sensing off leaves the transmission machine in \<^verbatim>\<open>TX_INIT\<close>, from
  every state. \<^verbatim>\<open>TX_VISUAL_SENT\<close> is the one case of the switch that does not test the
  selector. Six passes from power-up reach it; a pass with sensing off then leaves the
  machine in \<^verbatim>\<open>TX_VISUAL_SENT\<close> while the UART is still sending, and takes it to \<^verbatim>\<open>TX_VISUAL\<close>,
  clearing the flag of slot 0, once the send is complete. In neither case is it in
  \<^verbatim>\<open>TX_INIT\<close> after the pass.
\<close>

theorem disable_ignored_in_visual_sent:
  "run 6 (handshake_envs 6 @ [env_on]) init_state =
     Inr (visual_sent_state 6,
          [Uart_Send_Hdr \<lparr>type = PMT_CONFIG, len = 8\<rparr>, Launch_Capture 0, Uart_Getchar 6,
           Uart_Send_Config (Some \<lparr>cols = 64, rows = 25\<rparr>), Launch_Capture 1,
           Uart_Send_Hdr \<lparr>type = PMT_VISUAL, len = 1600\<rparr>, Uart_Send_Image 0]) \<and>
   \<not> sensing (env_off\<lparr>uart1_sending := True\<rparr>) \<and>
   tick 6 (env_off\<lparr>uart1_sending := True\<rparr>) (visual_sent_state 6) =
     Inr ((visual_sent_state 6)\<lparr>img_state := CAM_INACTIVE\<rparr>, []) \<and>
   \<not> sensing env_off \<and>
   tick 6 env_off (visual_sent_state 6) =
     Inr ((visual_sent_state 6)\<lparr>img_bufs := (\<lparr>data_is_new = 0\<rparr>, \<lparr>data_is_new = 0\<rparr>),
            tx_state := TX_VISUAL, img_state := CAM_INACTIVE\<rparr>, [])"
  by (simp add: eval_defs scenario_defs)

subsection \<open>C3: the acknowledgement register at the start of an acknowledgement wait\<close>

text \<open>
  C3 says that the acknowledgement register is empty when an acknowledgement wait starts.
  The source clears \<^verbatim>\<open>ack\<close> in one place only, when \<^verbatim>\<open>TX_VISUAL_ACK\<close> hands the payload to
  the UART; \<^verbatim>\<open>TX_CONFIG_ACK\<close> leaves the sentinel in it. Five passes from power-up enter
  \<^verbatim>\<open>TX_VISUAL_ACK\<close> with the register still holding the byte that closed the configuration
  handshake, and the next pass emits the payload of slot 0 although no byte is there to read.
\<close>

theorem ack_left_over_from_config_handshake:
  "run 6 (handshake_envs 6) init_state =
     Inr (visual_ack_state 6,
          [Uart_Send_Hdr \<lparr>type = PMT_CONFIG, len = 8\<rparr>, Launch_Capture 0, Uart_Getchar 6,
           Uart_Send_Config (Some \<lparr>cols = 64, rows = 25\<rparr>), Launch_Capture 1,
           Uart_Send_Hdr \<lparr>type = PMT_VISUAL, len = 1600\<rparr>]) \<and>
   tx_state (visual_ack_state 6) = TX_VISUAL_ACK \<and> ack (visual_ack_state 6) = 6 \<and>
   uart1_char env_on = None \<and>
   tx_step 6 env_on (visual_ack_state 6) = Inr (visual_sent_state 6, [Uart_Send_Image 0])"
  by (simp add: eval_defs scenario_defs)

subsection \<open>C4: consuming bytes in the acknowledgement waits\<close>

text \<open>
  C4 as stated (a byte is consumed only while the register is still empty) fails: the guard
  of the source is \<^verbatim>\<open>ack != PMT_ACK\<close>, not \<^verbatim>\<open>ack == 0\<close>. After a first byte 5 the register is
  not empty, and the next pass still consumes the byte 9 that is waiting.
\<close>

theorem byte_consumed_while_register_nonempty:
  "run 6 [env_on, env_on, env_ack 5] init_state =
     Inr (stray_state,
          [Uart_Send_Hdr \<lparr>type = PMT_CONFIG, len = 8\<rparr>, Launch_Capture 0, Uart_Getchar 5]) \<and>
   tx_state stray_state = TX_CONFIG_ACK \<and> ack stray_state = 5 \<and>
   tick 6 (env_ack 9) stray_state = Inr (stray_state\<lparr>ack := 9\<rparr>, [Uart_Getchar 9])"
  by (simp add: eval_defs scenario_defs)

text \<open>
  C4, amended. In each acknowledgement wait (\<^verbatim>\<open>TX_CONFIG_ACK\<close> and \<^verbatim>\<open>TX_VISUAL_ACK\<close>) a pass
  consumes at most one byte, and it consumes one exactly when sensing is on, the channel has
  an unread byte and the register differs from the sentinel; the byte becomes the register's
  value and the machine stays in its state. Once the register equals the sentinel no further
  byte is consumed in that wait.
\<close>

theorem ack_wait_consumes_until_sentinel:
  assumes "tx_state s = TX_CONFIG_ACK \<or> tx_state s = TX_VISUAL_ACK" and "idx_ok s"
  shows "\<exists>s' acts. tick p e s = Inr (s', acts) \<and>
           length (filter is_getchar acts) \<le> 1 \<and>
           (list_ex is_getchar acts \<longleftrightarrow> sensing e \<and> uart1_char e \<noteq> None \<and> ack s \<noteq> p) \<and>
           (list_ex is_getchar acts \<longrightarrow>
              Uart_Getchar (the (uart1_char e)) \<in> set acts \<and> ack s' = the (uart1_char e) \<and>
              tx_state s' = tx_state s)"
proof -
  from tick_total [OF assms(2)] obtain s' acts where t: "tick p e s = Inr (s', acts)"
    by blast
  then obtain s1 a1 a2 where tx: "tx_step p e s = Inr (s1, a1)"
    and cam: "cam_step e s1 = Inr (s', a2)" and acts: "acts = a1 @ a2"
    unfolding tick_Inr_iff by blast
  note g = tx_step_getchar [OF tx]
  note c = cam_step_only_launch [OF cam]
  from c have no_get: "filter is_getchar a2 = []" "\<not> list_ex is_getchar a2"
    by (simp_all add: launch_not_getchar)
  have "length (filter is_getchar acts) \<le> 1"
    using g no_get acts by simp
  moreover have "list_ex is_getchar acts \<longleftrightarrow> sensing e \<and> uart1_char e \<noteq> None \<and> ack s \<noteq> p"
    using g no_get acts assms(1) by simp
  moreover have "list_ex is_getchar acts \<longrightarrow>
              Uart_Getchar (the (uart1_char e)) \<in> set acts \<and> ack s' = the (uart1_char e) \<and>
              tx_state s' = tx_state s"
    using g no_get acts c by auto
  ultimately show ?thesis using t by blast
qed

text \<open>In the state with the stray byte 5 in the register, the waiting sentinel is consumed.\<close>

theorem ack_wait_consumes_until_sentinel_witness:
  "tx_state stray_state = TX_CONFIG_ACK \<and> idx_ok stray_state \<and>
   (\<exists>s' acts. tick 6 (env_ack 6) stray_state = Inr (s', acts) \<and>
      length (filter is_getchar acts) \<le> 1 \<and> list_ex is_getchar acts \<and>
      sensing (env_ack 6) \<and> uart1_char (env_ack 6) \<noteq> None \<and> ack stray_state \<noteq> 6 \<and>
      Uart_Getchar 6 \<in> set acts \<and> ack s' = 6 \<and> tx_state s' = TX_CONFIG_ACK)"
proof -
  have a: "tx_state stray_state = TX_CONFIG_ACK" and b: "idx_ok stray_state"
    and c: "sensing (env_ack 6)" "uart1_char (env_ack 6) = Some 6" "ack stray_state \<noteq> 6"
    by (simp_all add: idx_ok_def eval_defs scenario_defs)
  from a have a': "tx_state stray_state = TX_CONFIG_ACK \<or> tx_state stray_state = TX_VISUAL_ACK"
    by simp
  show ?thesis
    using ack_wait_consumes_until_sentinel [OF a' b, of 6 "env_ack 6"] a b c
    by auto
qed

subsection \<open>C5: switching sensing off in the middle of a handshake\<close>



subsection \<open>C6: fixed priority of slot 0\<close>



subsection \<open>C7: backpressure\<close>

text \<open>
  C7 as stated (camera machine idle, sensing on, both flags 1 before the pass: still idle and
  no capture started after the pass) fails in the pass in which the transmission machine
  frees a slot, because that machine steps first: six passes from power-up reach a state with
  both slots ready and the camera machine idle, and the next pass clears the flag of slot 0
  and starts a capture into it.
\<close>

theorem capture_resumes_in_freeing_tick:
  "run 6 backpressure_envs init_state =
     Inr (both_ready_state,
          [Uart_Send_Hdr \<lparr>type = PMT_CONFIG, len = 8\<rparr>, Launch_Capture 0, Uart_Getchar 6,
           Uart_Send_Config (Some \<lparr>cols = 64, rows = 25\<rparr>), Launch_Capture 1,
           Uart_Send_Hdr \<lparr>type = PMT_VISUAL, len = 1600\<rparr>, Uart_Send_Image 0]) \<and>
   img_state both_ready_state = CAM_IDLE \<and> sensing env_on \<and>
   flag both_ready_state 0 = 1 \<and> flag both_ready_state 1 = 1 \<and>
   tick 6 env_on both_ready_state =
     Inr (both_ready_state\<lparr>img_bufs := (\<lparr>data_is_new = 0\<rparr>, \<lparr>data_is_new = 1\<rparr>),
            tx_state := TX_VISUAL, act_img_buf := 0, img_state := CAM_CAPTURING\<rparr>,
          [Launch_Capture 0])"
  by (simp add: eval_defs scenario_defs flag_def)

text \<open>
  C7, amended. If the camera machine is in \<^verbatim>\<open>CAM_IDLE\<close> with sensing on and both flags are 1
  before the pass, then after the pass it is still in \<^verbatim>\<open>CAM_IDLE\<close>, no capture has been
  started and the flags are unchanged, unless the transmission machine frees a slot in that
  same pass (it is in \<^verbatim>\<open>TX_VISUAL_SENT\<close> and the UART reports the send complete); in that
  case the pass starts a capture into the slot just freed. So capture resumes only after the
  transmission machine has freed a slot.
\<close>

theorem backpressure_unless_freed:
  assumes "img_state s = CAM_IDLE" and "sensing e" and "flag s 0 = 1" and "flag s 1 = 1"
    and "idx_ok s"
  shows "if tx_state s = TX_VISUAL_SENT \<and> \<not> uart1_sending e
         then \<exists>s'. tick p e s = Inr (s', [Launch_Capture (act_tx_buf s)]) \<and>
                img_state s' = CAM_CAPTURING \<and> act_img_buf s' = act_tx_buf s \<and>
                flag s' (act_tx_buf s) = 0
         else \<exists>s' acts. tick p e s = Inr (s', acts) \<and> img_state s' = CAM_IDLE \<and>
                \<not> list_ex is_launch acts \<and> img_bufs s' = img_bufs s"
  using assms
  apply (cases "tx_state s")
       apply (auto simp: tick_def step_defs flag_def idx_ok_def)[1]
      apply (auto simp: tick_def step_defs flag_def idx_ok_def)[1]
     apply (auto simp: tick_def step_defs flag_def idx_ok_def)[1]
    apply (auto simp: tick_def step_defs flag_def idx_ok_def)[1]
   apply (auto simp: tick_def step_defs flag_def idx_ok_def)[1]
  apply (auto simp: tick_def step_defs flag_def idx_ok_def)[1]
  done

text \<open>
  Both slots ready and the camera machine idle: while the UART is still sending the payload of
  slot 0 the camera machine holds; in the pass in which the send is complete it captures into
  slot 0.
\<close>

theorem backpressure_unless_freed_witness:
  "img_state both_ready_state = CAM_IDLE \<and> sensing env_on \<and>
   sensing (env_on\<lparr>uart1_sending := True\<rparr>) \<and>
   flag both_ready_state 0 = 1 \<and> flag both_ready_state 1 = 1 \<and> idx_ok both_ready_state \<and>
   tx_state both_ready_state = TX_VISUAL_SENT \<and> uart1_sending (env_on\<lparr>uart1_sending := True\<rparr>) \<and>
   (\<exists>s' acts. tick 6 (env_on\<lparr>uart1_sending := True\<rparr>) both_ready_state = Inr (s', acts) \<and>
      img_state s' = CAM_IDLE \<and> \<not> list_ex is_launch acts \<and>
      img_bufs s' = img_bufs both_ready_state) \<and>
   \<not> uart1_sending env_on \<and>
   (\<exists>s'. tick 6 env_on both_ready_state = Inr (s', [Launch_Capture 0]) \<and>
      img_state s' = CAM_CAPTURING \<and> act_img_buf s' = 0 \<and> flag s' 0 = 0)"
proof -
  have a: "img_state both_ready_state = CAM_IDLE" "flag both_ready_state 0 = 1"
    "flag both_ready_state 1 = 1" "idx_ok both_ready_state"
    "tx_state both_ready_state = TX_VISUAL_SENT" "act_tx_buf both_ready_state = 0"
    by (simp_all add: scenario_defs flag_def idx_ok_def)
  have b: "sensing env_on" "sensing (env_on\<lparr>uart1_sending := True\<rparr>)"
    "uart1_sending (env_on\<lparr>uart1_sending := True\<rparr>)" "\<not> uart1_sending env_on"
    by (simp_all add: eval_defs)
  show ?thesis
    using backpressure_unless_freed [OF a(1) b(2) a(2,3,4), of 6]
      backpressure_unless_freed [OF a(1) b(1) a(2,3,4), of 6] a b
    by simp
qed

subsection \<open>C8: the configuration payload within one enable period\<close>




subsection \<open>C9: the active indices stay in range\<close>

text \<open>
  C9. The active buffer indices are always in range: in every state the loop can reach,
  \<^verbatim>\<open>act_tx_buf\<close> and \<^verbatim>\<open>act_img_buf\<close> are 0 or 1, they still are between the two machines' steps
  and after the pass, and neither step of the pass faults on an index; so no finite run from
  a reachable state faults either.
\<close>

theorem indices_in_range:
  assumes "reachable p s"
  shows "idx_ok s \<and>
         (\<exists>s1 a1 s2 a2. tx_step p e s = Inr (s1, a1) \<and> idx_ok s1 \<and>
            cam_step e s1 = Inr (s2, a2) \<and> idx_ok s2 \<and> tick p e s = Inr (s2, a1 @ a2)) \<and>
         (\<exists>s' acts. run p es s = Inr (s', acts))"
proof -
  from assms have "handoff_inv s" by (rule reachable_inv)
  then have ok: "idx_ok s" by (simp add: handoff_inv_def)
  with tick_total [OF ok] run_total [OF ok] show ?thesis by blast
qed

theorem indices_in_range_witness:
  "reachable 6 (visual_ack_state 6) \<and> idx_ok (visual_ack_state 6) \<and>
   (\<exists>s1 a1 s2 a2. tx_step 6 env_on (visual_ack_state 6) = Inr (s1, a1) \<and> idx_ok s1 \<and>
      cam_step env_on s1 = Inr (s2, a2) \<and> idx_ok s2 \<and>
      tick 6 env_on (visual_ack_state 6) = Inr (s2, a1 @ a2)) \<and>
   (\<exists>s' acts. run 6 [env_on, env_off] (visual_ack_state 6) = Inr (s', acts))"
  using indices_in_range [OF reachable_visual_ack_state, of env_on "[env_on, env_off]"]
    reachable_visual_ack_state
  by blast

subsection \<open>C10: producer and consumer targets are disjoint\<close>

text \<open>
  C10. Producer and consumer targets are disjoint while both are active: in every reachable
  state, at the start of a pass or between the two machines' steps, where the camera machine
  is capturing and the transmission machine is past the header (\<^verbatim>\<open>TX_VISUAL_ACK\<close> or
  \<^verbatim>\<open>TX_VISUAL_SENT\<close>), \<^verbatim>\<open>act_img_buf\<close> differs from \<^verbatim>\<open>act_tx_buf\<close>: the capture target's flag
  is 0 and the transmission target's flag is 1.
\<close>

theorem producer_consumer_disjoint:
  assumes "reachable p s" and "t = s \<or> (\<exists>a. tx_step p e s = Inr (t, a))"
    and "img_state t = CAM_CAPTURING"
    and "tx_state t = TX_VISUAL_ACK \<or> tx_state t = TX_VISUAL_SENT"
  shows "act_img_buf t \<noteq> act_tx_buf t \<and> flag t (act_img_buf t) = 0 \<and> flag t (act_tx_buf t) = 1"
proof -
  from assms(1) have "handoff_inv s" by (rule reachable_inv)
  with assms(2) have "handoff_inv t" using tx_step_inv by blast
  with assms(3,4) have "flag t (act_img_buf t) = 0" and "flag t (act_tx_buf t) = 1"
    by (simp_all add: handoff_inv_def)
  then show ?thesis by auto
qed

theorem producer_consumer_disjoint_witness:
  "reachable 6 (visual_ack_state 6) \<and> img_state (visual_ack_state 6) = CAM_CAPTURING \<and>
   tx_state (visual_ack_state 6) = TX_VISUAL_ACK \<and>
   act_img_buf (visual_ack_state 6) \<noteq> act_tx_buf (visual_ack_state 6) \<and>
   flag (visual_ack_state 6) (act_img_buf (visual_ack_state 6)) = 0 \<and>
   flag (visual_ack_state 6) (act_tx_buf (visual_ack_state 6)) = 1"
  using producer_consumer_disjoint [OF reachable_visual_ack_state,
      of "visual_ack_state 6" env_on] reachable_visual_ack_state
  by (simp add: visual_ack_state_def)

end
